theory Spec2Isabelle
  imports Complex_Main "HOL-Library.Sublist"
begin

section \<open>Python values used by the bot\<close>

text \<open>
  A Python \<^verbatim>\<open>str\<close> is a sequence of Unicode code points, so it is modelled as a list of
  code points. \<open>ascii\<close> embeds the ASCII part of a literal; every other character of a
  literal of \<^verbatim>\<open>main.py\<close> is written as its code point (\<open>0xA\<close> is the newline).
\<close>

type_synonym pystr = "nat list"

definition ascii :: "string \<Rightarrow> pystr" where
  "ascii s = map of_char s"

text \<open>
  \<^verbatim>\<open>str.isspace\<close> on one character: the code points CPython treats as whitespace, which are
  the ones \<^verbatim>\<open>str.strip()\<close> without argument removes from both ends.
\<close>

definition isspace :: "nat \<Rightarrow> bool" where
  "isspace c = (c \<in> set [0x9, 0xA, 0xB, 0xC, 0xD, 0x1C, 0x1D, 0x1E, 0x1F, 0x20, 0x85, 0xA0,
     0x1680, 0x2000, 0x2001, 0x2002, 0x2003, 0x2004, 0x2005, 0x2006, 0x2007, 0x2008,
     0x2009, 0x200A, 0x2028, 0x2029, 0x202F, 0x205F, 0x3000])"

definition strip :: "pystr \<Rightarrow> pystr" where
  "strip s = rev (dropWhile isspace (rev (dropWhile isspace s)))"

text \<open>
  Exceptions are values. Only the class and the text \<^verbatim>\<open>str(e)\<close> of an exception matter to
  the bot: the class decides whether \<^verbatim>\<open>except Exception\<close> catches it, the text goes to
  the log. \<open>OpenAIError\<close> and \<open>TelegramError\<close> stand for the two libraries' own exception
  hierarchies, \<open>OtherException\<close> for any further subclass of \<^verbatim>\<open>Exception\<close> (an HTTP or
  socket error, say). The last three classes derive from \<^verbatim>\<open>BaseException\<close> only.
\<close>

datatype exc_class =
    AttributeError | IndexError | TypeError | ValueError
  | OpenAIError | TelegramError | OtherException
  | KeyboardInterrupt | SystemExit | CancelledError

record py_exception =
  exc_class :: exc_class
  exc_str :: pystr

fun isinstance_Exception :: "exc_class \<Rightarrow> bool" where
  "isinstance_Exception KeyboardInterrupt = False"
| "isinstance_Exception SystemExit = False"
| "isinstance_Exception CancelledError = False"
| "isinstance_Exception _ = True"

definition raise_exc :: "exc_class \<Rightarrow> pystr \<Rightarrow> py_exception" where
  "raise_exc c s = \<lparr>exc_class = c, exc_str = s\<rparr>"

text \<open>The text of the \<^verbatim>\<open>AttributeError\<close> for an attribute read on \<^verbatim>\<open>None\<close>.\<close>

definition no_attribute :: "string \<Rightarrow> pystr" where
  "no_attribute a =
     [0x27] @ ascii ''NoneType'' @ [0x27] @ ascii '' object has no attribute '' @ [0x27] @ ascii a @ [0x27]"

section \<open>The two remote services and the process state\<close>

text \<open>
  The request \<^verbatim>\<open>openai_client.chat.completions.create\<close> receives, and the part of its answer
  that \<^verbatim>\<open>get_ai_response\<close> reads. Each attribute on the path
  \<^verbatim>\<open>response.choices[0].message.content\<close> may be \<^verbatim>\<open>None\<close> in a malformed answer.
  Python floats are read as the real numbers they denote.
\<close>

record prompt_message =
  role :: pystr
  content :: pystr

record completion_request =
  model :: pystr
  messages :: "prompt_message list"
  max_tokens :: int
  temperature :: real

record completion_message =
  message_content :: "pystr option"

record choice =
  choice_message :: "completion_message option"

record completion_response =
  choices :: "choice list option"

text \<open>
  The part of a Telegram \<^verbatim>\<open>Update\<close> the handlers read. \<^verbatim>\<open>update.message\<close>,
  \<^verbatim>\<open>update.effective_user\<close> and \<^verbatim>\<open>update.effective_message\<close> are optional in the
  library; the message handler is registered for \<^verbatim>\<open>filters.TEXT\<close>, so the text of a message
  it sees is a string.
\<close>

record message =
  chat_id :: int
  message_text :: pystr

record user =
  first_name :: pystr

record update =
  upd_message :: "message option"
  effective_user :: "user option"
  effective_message :: "message option"

text \<open>
  The two Bot API methods the handlers call: \<^verbatim>\<open>message.reply_text(text, parse_mode)\<close> sends
  \<open>text\<close> to the chat of the message, \<^verbatim>\<open>message.chat.send_action(action)\<close> sends a presence
  signal to it. The text is the Python value handed over, \<open>None\<close> for \<^verbatim>\<open>None\<close>.
\<close>

datatype bot_call =
    SendMessage int "pystr option" "pystr option"
  | SendChatAction int pystr

text \<open>
  What lies outside the process: the completion endpoint answers a request with a response
  or raises; the Bot API accepts a call (\<open>None\<close>) or raises.
\<close>

record world =
  create :: "completion_request \<Rightarrow> py_exception + completion_response"
  bot_api :: "bot_call \<Rightarrow> py_exception option"

datatype level = INFO | ERROR

text \<open>
  What a run leaves behind: the records handed to \<^verbatim>\<open>logger\<close>, the requests issued to the
  completion endpoint and the Bot API calls issued, each in order of issue. A call that
  raises is recorded too: it was issued.
\<close>

record state =
  log_records :: "(level \<times> pystr) list"
  requests :: "completion_request list"
  bot_calls :: "bot_call list"

type_synonym 'a io = "state \<Rightarrow> (py_exception + 'a) \<times> state"

definition logger :: "level \<Rightarrow> pystr \<Rightarrow> state \<Rightarrow> state" where
  "logger lvl s st = st\<lparr>log_records := log_records st @ [(lvl, s)]\<rparr>"

definition call_bot :: "world \<Rightarrow> bot_call \<Rightarrow> unit io" where
  "call_bot w c st =
     (let st' = st\<lparr>bot_calls := bot_calls st @ [c]\<rparr>
      in case bot_api w c of Some e \<Rightarrow> (Inl e, st') | None \<Rightarrow> (Inr (), st'))"

definition reply_text :: "world \<Rightarrow> message \<Rightarrow> pystr option \<Rightarrow> pystr option \<Rightarrow> unit io" where
  "reply_text w m txt parse_mode = call_bot w (SendMessage (chat_id m) txt parse_mode)"

definition send_action :: "world \<Rightarrow> message \<Rightarrow> pystr \<Rightarrow> unit io" where
  "send_action w m action = call_bot w (SendChatAction (chat_id m) action)"

section \<open>Configuration\<close>

text \<open>
  The module-level names of \<^verbatim>\<open>main.py\<close>. \<^verbatim>\<open>os.getenv\<close> without default yields
  \<^verbatim>\<open>Optional[str]\<close>.
\<close>

record config =
  TELEGRAM_TOKEN :: "pystr option"
  OPENAI_API_KEY :: "pystr option"
  AI_MODEL :: pystr
  AI_MAX_TOKENS :: int
  AI_TEMPERATURE :: real

section \<open>get_ai_response\<close>

definition system_prompt :: "pystr \<Rightarrow> pystr" where
  "system_prompt user_name =
     ascii ''E'' @ [0x219] @ ascii ''ti un asistent AI prietenos '' @ [0xEE] @ ascii ''ntr-un chat Telegram.'' @ [0xA]
   @ ascii ''Utilizatorul se nume'' @ [0x219] @ ascii ''te '' @ user_name @ ascii ''.'' @ [0xA]
   @ ascii ''R'' @ [0x103] @ ascii ''spunde '' @ [0xEE] @ ascii ''ntr-un mod conversa'' @ [0x21B] @ ascii ''ional, prietenos '' @ [0x219] @ ascii ''i util.'' @ [0xA]
   @ ascii ''Fii concis dar informativ.'' @ [0xA]
   @ ascii ''Limba: rom'' @ [0xE2] @ ascii ''n'' @ [0x103] @ ascii '' (dac'' @ [0x103] @ ascii '' utilizatorul scrie '' @ [0xEE] @ ascii ''n rom'' @ [0xE2] @ ascii ''n'' @ [0x103] @ ascii '') sau englez'' @ [0x103] @ ascii ''.'' @ [0xA]"

definition fallback :: pystr where
  "fallback = [0x26A0, 0xFE0F] @ ascii '' Scuze, am '' @ [0xEE] @ ascii ''nt'' @ [0xE2] @ ascii ''mpinat o eroare. '' @ [0xCE] @ ascii ''ncearc'' @ [0x103] @ ascii '' din nou.''"

definition build_request :: "config \<Rightarrow> pystr \<Rightarrow> pystr \<Rightarrow> completion_request" where
  "build_request cfg user_message user_name =
     \<lparr>model = AI_MODEL cfg,
      messages = [\<lparr>role = ascii ''system'', content = system_prompt user_name\<rparr>,
                  \<lparr>role = ascii ''user'', content = user_message\<rparr>],
      max_tokens = AI_MAX_TOKENS cfg,
      temperature = AI_TEMPERATURE cfg\<rparr>"

text \<open>
  \<^verbatim>\<open>response.choices[0].message.content.strip()\<close>: subscripting \<^verbatim>\<open>None\<close> is a
  \<^verbatim>\<open>TypeError\<close>, index 0 of an empty list an \<^verbatim>\<open>IndexError\<close>, an attribute of
  \<^verbatim>\<open>None\<close> an \<^verbatim>\<open>AttributeError\<close>.
\<close>

definition stripped_content :: "completion_response \<Rightarrow> py_exception + pystr" where
  "stripped_content response =
     (case choices response of
        None \<Rightarrow> Inl (raise_exc TypeError ([0x27] @ ascii ''NoneType'' @ [0x27] @ ascii '' object is not subscriptable''))
      | Some [] \<Rightarrow> Inl (raise_exc IndexError (ascii ''list index out of range''))
      | Some (c # _) \<Rightarrow>
          (case choice_message c of
             None \<Rightarrow> Inl (raise_exc AttributeError (no_attribute ''content''))
           | Some m \<Rightarrow>
               (case message_content m of
                  None \<Rightarrow> Inl (raise_exc AttributeError (no_attribute ''strip''))
                | Some s \<Rightarrow> Inr (strip s))))"

text \<open>The body of the \<^verbatim>\<open>try\<close> block.\<close>

definition try_get_ai_response :: "config \<Rightarrow> world \<Rightarrow> pystr \<Rightarrow> pystr \<Rightarrow> (pystr option) io" where
  "try_get_ai_response cfg w user_message user_name st =
     (let req = build_request cfg user_message user_name;
          st' = st\<lparr>requests := requests st @ [req]\<rparr>
      in case create w req of
           Inl e \<Rightarrow> (Inl e, st')
         | Inr response \<Rightarrow>
             (case stripped_content response of
                Inl e \<Rightarrow> (Inl e, st')
              | Inr s \<Rightarrow> (Inr (Some s), st')))"

text \<open>
  The function with its handler \<^verbatim>\<open>except Exception as e\<close>. The second parameter has the
  default \<^verbatim>\<open>"User"\<close>: \<open>None\<close> is the call that omits it. The result type is the annotated
  \<^verbatim>\<open>Optional[str]\<close>.
\<close>

definition user_name_or_default :: "pystr option \<Rightarrow> pystr" where
  "user_name_or_default user_name_arg =
     (case user_name_arg of None \<Rightarrow> ascii ''User'' | Some n \<Rightarrow> n)"

definition get_ai_response :: "config \<Rightarrow> world \<Rightarrow> pystr \<Rightarrow> pystr option \<Rightarrow> (pystr option) io" where
  "get_ai_response cfg w user_message user_name_arg st =
     (let user_name = user_name_or_default user_name_arg
      in case try_get_ai_response cfg w user_message user_name st of
           (Inr r, st') \<Rightarrow> (Inr r, st')
         | (Inl e, st') \<Rightarrow>
             if isinstance_Exception (exc_class e)
             then (Inr (Some fallback),
                   logger ERROR ([0x274C] @ ascii '' Eroare AI: '' @ exc_str e) st')
             else (Inl e, st'))"

section \<open>The Telegram handlers\<close>

definition welcome_message :: "pystr \<Rightarrow> pystr" where
  "welcome_message name =
     [0xA]
   @ [0x1F44B] @ ascii '' Bun venit, '' @ name @ ascii ''!'' @ [0xA]
   @ [0xA]
   @ ascii ''Eu sunt asistentul t'' @ [0x103] @ ascii ''u AI. Pot s'' @ [0x103] @ ascii '':'' @ [0xA]
   @ [0x2022] @ ascii '' '' @ [0x1F4AC] @ ascii '' Vorbesc cu tine despre orice'' @ [0xA]
   @ [0x2022] @ ascii '' '' @ [0x1F9E0] @ ascii '' '' @ [0xCE, 0x21B] @ ascii ''i r'' @ [0x103] @ ascii ''spund la '' @ [0xEE] @ ascii ''ntreb'' @ [0x103] @ ascii ''ri'' @ [0xA]
   @ [0x2022] @ ascii '' '' @ [0x1F4DD] @ ascii '' Te ajut cu sfaturi '' @ [0x219] @ ascii ''i idei'' @ [0xA]
   @ [0xA]
   @ ascii ''Trimite-mi un mesaj '' @ [0x219] @ ascii ''i '' @ [0xEE, 0x21B] @ ascii ''i voi r'' @ [0x103] @ ascii ''spunde!'' @ [0xA]
   @ ascii ''    '' @ [0xA]
   @ ascii ''Comenzi disponibile:'' @ [0xA]
   @ ascii ''/start - Acest mesaj'' @ [0xA]
   @ ascii ''/help - Ajutor '' @ [0x219] @ ascii ''i informa'' @ [0x21B] @ ascii ''ii'' @ [0xA]
   @ ascii ''/about - Despre acest bot'' @ [0xA]
   @ ascii ''    ''"

definition help_text :: pystr where
  "help_text =
     [0xA]
   @ [0x1F916] @ ascii '' **Cum s'' @ [0x103] @ ascii '' folose'' @ [0x219] @ ascii ''ti acest bot:**'' @ [0xA]
   @ [0xA]
   @ ascii ''1. Scrie-mi orice mesaj '' @ [0x219] @ ascii ''i voi r'' @ [0x103] @ ascii ''spunde folosind AI'' @ [0xA]
   @ ascii ''2. Po'' @ [0x21B] @ ascii ''i s'' @ [0x103] @ ascii '' m'' @ [0x103] @ ascii '' '' @ [0xEE] @ ascii ''ntrebi orice:'' @ [0xA]
   @ ascii ''   - '' @ [0xCE] @ ascii ''ntreb'' @ [0x103] @ ascii ''ri generale'' @ [0xA]
   @ ascii ''   - Sfaturi '' @ [0x219] @ ascii ''i recomand'' @ [0x103] @ ascii ''ri'' @ [0xA]
   @ ascii ''   - Explica'' @ [0x21B] @ ascii ''ii '' @ [0x219] @ ascii ''i defini'' @ [0x21B] @ ascii ''ii'' @ [0xA]
   @ ascii ''   - Conversa'' @ [0x21B] @ ascii ''ii libere'' @ [0xA]
   @ [0xA]
   @ [0x1F527] @ ascii '' **Comenzi:**'' @ [0xA]
   @ ascii ''/start - Mesaj de bun venit'' @ [0xA]
   @ ascii ''/help - Acest mesaj de ajutor'' @ [0xA]
   @ ascii ''/about - Informa'' @ [0x21B] @ ascii ''ii despre bot'' @ [0xA]
   @ [0xA]
   @ [0x1F4A1] @ ascii '' **Sfaturi:**'' @ [0xA]
   @ [0x2022] @ ascii '' Folose'' @ [0x219] @ ascii ''te rom'' @ [0xE2] @ ascii ''na sau engleza'' @ [0xA]
   @ [0x2022] @ ascii '' Fii specific '' @ [0xEE] @ ascii ''n '' @ [0xEE] @ ascii ''ntreb'' @ [0x103] @ ascii ''ri pentru r'' @ [0x103] @ ascii ''spunsuri mai bune'' @ [0xA]
   @ [0x2022] @ ascii '' Botul nu re'' @ [0x21B] @ ascii ''ine contextul '' @ [0xEE] @ ascii ''ntre mesaje (versiune simpl'' @ [0x103] @ ascii '')'' @ [0xA]
   @ ascii ''    ''"

definition about_text :: pystr where
  "about_text =
     [0xA]
   @ [0x1F916] @ ascii '' **AI Telegram Bot**'' @ [0xA]
   @ ascii ''    '' @ [0xA]
   @ ascii ''Versiune: 1.0'' @ [0xA]
   @ ascii ''Creator: [Numele t'' @ [0x103] @ ascii ''u]'' @ [0xA]
   @ ascii ''    '' @ [0xA]
   @ [0x1F4BB] @ ascii '' **Tehnologii:**'' @ [0xA]
   @ [0x2022] @ ascii '' Python + python-telegram-bot'' @ [0xA]
   @ [0x2022] @ ascii '' OpenAI GPT API'' @ [0xA]
   @ [0x2022] @ ascii '' Deploy pe Render/Railway'' @ [0xA]
   @ ascii ''    '' @ [0xA]
   @ [0x1F510] @ ascii '' **Confiden'' @ [0x21B] @ ascii ''ialitate:**'' @ [0xA]
   @ [0x2022] @ ascii '' Conversa'' @ [0x21B] @ ascii ''iile sunt procesate de OpenAI'' @ [0xA]
   @ [0x2022] @ ascii '' Nu stochez mesaje permanente'' @ [0xA]
   @ [0x2022] @ ascii '' Cod surs'' @ [0x103] @ ascii '' disponibil pe GitHub'' @ [0xA]
   @ ascii ''    '' @ [0xA]
   @ [0x2709, 0xFE0F] @ ascii '' Contact: [email-ul t'' @ [0x103] @ ascii ''u]'' @ [0xA]
   @ ascii ''    ''"

definition apology :: pystr where
  "apology = [0x274C] @ ascii '' A ap'' @ [0x103] @ ascii ''rut o eroare. Te rog '' @ [0xEE] @ ascii ''ncearc'' @ [0x103] @ ascii '' din nou.''"

text \<open>
  \<^verbatim>\<open>start_command\<close> reads \<^verbatim>\<open>user.first_name\<close> while it builds the text, then
  \<^verbatim>\<open>update.message.reply_text\<close>; either attribute read fails on \<^verbatim>\<open>None\<close>.
\<close>

definition start_command :: "world \<Rightarrow> update \<Rightarrow> unit io" where
  "start_command w upd st =
     (case effective_user upd of
        None \<Rightarrow> (Inl (raise_exc AttributeError (no_attribute ''first_name'')), st)
      | Some usr \<Rightarrow>
          (case upd_message upd of
             None \<Rightarrow> (Inl (raise_exc AttributeError (no_attribute ''reply_text'')), st)
           | Some m \<Rightarrow> reply_text w m (Some (welcome_message (first_name usr))) None st))"

definition help_command :: "world \<Rightarrow> update \<Rightarrow> unit io" where
  "help_command w upd st =
     (case upd_message upd of
        None \<Rightarrow> (Inl (raise_exc AttributeError (no_attribute ''reply_text'')), st)
      | Some m \<Rightarrow> reply_text w m (Some help_text) (Some (ascii ''Markdown'')) st)"

definition about_command :: "world \<Rightarrow> update \<Rightarrow> unit io" where
  "about_command w upd st =
     (case upd_message upd of
        None \<Rightarrow> (Inl (raise_exc AttributeError (no_attribute ''reply_text'')), st)
      | Some m \<Rightarrow> reply_text w m (Some about_text) None st)"

definition handle_message :: "config \<Rightarrow> world \<Rightarrow> update \<Rightarrow> unit io" where
  "handle_message cfg w upd st =
     (case upd_message upd of
        None \<Rightarrow> (Inl (raise_exc AttributeError (no_attribute ''text'')), st)
      | Some m \<Rightarrow>
          (let user_message = message_text m in
           case effective_user upd of
             None \<Rightarrow> (Inl (raise_exc AttributeError (no_attribute ''first_name'')), st)
           | Some usr \<Rightarrow>
               (let st1 = logger INFO ([0x1F4E9] @ ascii '' Mesaj de la '' @ first_name usr
                                        @ ascii '': '' @ user_message) st
                in case send_action w m (ascii ''typing'') st1 of
                     (Inl e, st2) \<Rightarrow> (Inl e, st2)
                   | (Inr _, st2) \<Rightarrow>
                       (case get_ai_response cfg w user_message (Some (first_name usr)) st2 of
                          (Inl e, st3) \<Rightarrow> (Inl e, st3)
                        | (Inr ai_response, st3) \<Rightarrow> reply_text w m ai_response None st3))))"

text \<open>
  \<^verbatim>\<open>error_handler\<close> is called with the update that was being handled, or \<^verbatim>\<open>None\<close>, and
  with the error in \<^verbatim>\<open>context.error\<close>. An \<^verbatim>\<open>Update\<close> and a \<^verbatim>\<open>Message\<close> are truthy
  objects, so the condition asks for both to be present.
\<close>

definition error_handler :: "world \<Rightarrow> update option \<Rightarrow> py_exception \<Rightarrow> unit io" where
  "error_handler w upd_arg context_error st =
     (let st1 = logger ERROR ([0x274C] @ ascii '' Eroare: '' @ exc_str context_error) st
      in case upd_arg of
           None \<Rightarrow> (Inr (), st1)
         | Some upd \<Rightarrow>
             (case effective_message upd of
                None \<Rightarrow> (Inr (), st1)
              | Some m \<Rightarrow> reply_text w m (Some apology) None st1))"

section \<open>Module initialisation\<close>

text \<open>
  The Python runtime as the module sees it: \<^verbatim>\<open>os.environ\<close> after \<^verbatim>\<open>load_dotenv()\<close>, and
  the builtins \<^verbatim>\<open>int\<close> and \<^verbatim>\<open>float\<close> applied to a string, which return the number or
  raise.
\<close>

record runtime =
  environ :: "string \<rightharpoonup> pystr"
  int_of_str :: "pystr \<Rightarrow> py_exception + int"
  float_of_str :: "pystr \<Rightarrow> py_exception + real"

text \<open>\<^verbatim>\<open>os.getenv(key)\<close> and \<^verbatim>\<open>os.getenv(key, default)\<close>; the default need not be a string.\<close>

datatype 'd env_value = FromEnv pystr | Default 'd

definition getenv :: "runtime \<Rightarrow> string \<Rightarrow> pystr option" where
  "getenv rt key = environ rt key"

definition getenv_default :: "runtime \<Rightarrow> string \<Rightarrow> 'd \<Rightarrow> 'd env_value" where
  "getenv_default rt key d = (case environ rt key of None \<Rightarrow> Default d | Some s \<Rightarrow> FromEnv s)"

text \<open>\<^verbatim>\<open>int(v)\<close> and \<^verbatim>\<open>float(v)\<close>: a number is returned as it is, a string is parsed.\<close>

definition py_int :: "runtime \<Rightarrow> int env_value \<Rightarrow> py_exception + int" where
  "py_int rt v = (case v of Default n \<Rightarrow> Inr n | FromEnv s \<Rightarrow> int_of_str rt s)"

definition py_float :: "runtime \<Rightarrow> real env_value \<Rightarrow> py_exception + real" where
  "py_float rt v = (case v of Default x \<Rightarrow> Inr x | FromEnv s \<Rightarrow> float_of_str rt s)"

definition load_AI_MODEL :: "runtime \<Rightarrow> pystr" where
  "load_AI_MODEL rt =
     (case getenv_default rt ''AI_MODEL'' (ascii ''gpt-3.5-turbo'') of
        Default d \<Rightarrow> d | FromEnv s \<Rightarrow> s)"

definition load_AI_MAX_TOKENS :: "runtime \<Rightarrow> py_exception + int" where
  "load_AI_MAX_TOKENS rt = py_int rt (getenv_default rt ''AI_MAX_TOKENS'' 500)"

definition load_AI_TEMPERATURE :: "runtime \<Rightarrow> py_exception + real" where
  "load_AI_TEMPERATURE rt = py_float rt (getenv_default rt ''AI_TEMPERATURE'' 0.7)"

text \<open>\<^verbatim>\<open>not v\<close> for an \<^verbatim>\<open>Optional[str]\<close>: \<^verbatim>\<open>None\<close> and the empty string are falsy.\<close>

definition py_not :: "pystr option \<Rightarrow> bool" where
  "py_not v = (case v of None \<Rightarrow> True | Some s \<Rightarrow> s = [])"

text \<open>
  Lines 21 to 37 of \<^verbatim>\<open>main.py\<close>, in their order: the five assignments, then the two
  checks. \<open>Inl\<close> is an exception that leaves the module, so that the \<^verbatim>\<open>__main__\<close> block at
  its end, which starts the receive loop, is never reached; \<open>Inr\<close> is the configuration
  with which the rest of the module runs.
\<close>

definition startup :: "runtime \<Rightarrow> config io" where
  "startup rt st =
     (let token = getenv rt ''TELEGRAM_BOT_TOKEN'';
          key = getenv rt ''OPENAI_API_KEY'';
          ai_model = load_AI_MODEL rt
      in case load_AI_MAX_TOKENS rt of
           Inl e \<Rightarrow> (Inl e, st)
         | Inr n \<Rightarrow>
             (case load_AI_TEMPERATURE rt of
                Inl e \<Rightarrow> (Inl e, st)
              | Inr t \<Rightarrow>
                  if py_not token
                  then (Inl (raise_exc ValueError (ascii ''TELEGRAM_BOT_TOKEN lips'' @ [0x103])),
                        logger ERROR ([0x274C] @ ascii '' TELEGRAM_BOT_TOKEN nu este setat ''
                                       @ [0xEE] @ ascii ''n .env'') st)
                  else if py_not key
                  then (Inl (raise_exc ValueError (ascii ''OPENAI_API_KEY lips'' @ [0x103])),
                        logger ERROR ([0x274C] @ ascii '' OPENAI_API_KEY nu este setat ''
                                       @ [0xEE] @ ascii ''n .env'') st)
                  else (Inr \<lparr>TELEGRAM_TOKEN = token, OPENAI_API_KEY = key, AI_MODEL = ai_model,
                              AI_MAX_TOKENS = n, AI_TEMPERATURE = t\<rparr>, st)))"

section \<open>Concrete runs\<close>

text \<open>
  Inputs on which the model is run below: a configuration with the default settings, the
  state of a fresh process, the update of a user Maria who writes \<^verbatim>\<open>Ce faci?\<close> in chat 42,
  and worlds in which the endpoint answers, answers with blanks only, answers without
  content, or is unreachable, and in which the Bot API accepts the calls or not.
\<close>

definition cfg_default :: config where
  "cfg_default = \<lparr>TELEGRAM_TOKEN = Some (ascii ''123:abc''), OPENAI_API_KEY = Some (ascii ''sk-test''),
     AI_MODEL = ascii ''gpt-3.5-turbo'', AI_MAX_TOKENS = 500, AI_TEMPERATURE = 0.7\<rparr>"

definition st_empty :: state where
  "st_empty = \<lparr>log_records = [], requests = [], bot_calls = []\<rparr>"

definition msg_ce_faci :: message where
  "msg_ce_faci = \<lparr>chat_id = 42, message_text = ascii ''Ce faci?''\<rparr>"

definition upd_maria :: update where
  "upd_maria = \<lparr>upd_message = Some msg_ce_faci, effective_user = Some \<lparr>first_name = ascii ''Maria''\<rparr>,
     effective_message = Some msg_ce_faci\<rparr>"

definition upd_anonymous :: update where
  "upd_anonymous = \<lparr>upd_message = Some \<lparr>chat_id = 7, message_text = ascii ''/help''\<rparr>,
     effective_user = None,
     effective_message = Some \<lparr>chat_id = 7, message_text = ascii ''/help''\<rparr>\<rparr>"

definition answer :: "pystr option \<Rightarrow> completion_response" where
  "answer c = \<lparr>choices = Some [\<lparr>choice_message = Some \<lparr>message_content = c\<rparr>\<rparr>]\<rparr>"

definition w_ok :: world where
  "w_ok = \<lparr>create = (\<lambda>req. Inr (answer (Some (ascii ''Bine, mul'' @ [0x21B] @ ascii ''umesc!'' @ [0xA])))),
            bot_api = (\<lambda>c. None)\<rparr>"

definition w_blank :: world where
  "w_blank = \<lparr>create = (\<lambda>req. Inr (answer (Some (ascii ''   '')))),
     bot_api = (\<lambda>c. case c of
                  SendMessage _ (Some []) _ \<Rightarrow> Some (raise_exc TelegramError (ascii ''Message text is empty''))
                | _ \<Rightarrow> None)\<rparr>"

definition w_down :: world where
  "w_down = \<lparr>create = (\<lambda>req. Inl (raise_exc OpenAIError (ascii ''Connection error.''))),
              bot_api = (\<lambda>c. None)\<rparr>"

definition w_offline :: world where
  "w_offline = \<lparr>create = (\<lambda>req. Inl (raise_exc OpenAIError (ascii ''Connection error.''))),
                 bot_api = (\<lambda>c. Some (raise_exc TelegramError (ascii ''Timed out'')))\<rparr>"

definition w_no_content :: world where
  "w_no_content = \<lparr>create = (\<lambda>req. Inr (answer None)), bot_api = (\<lambda>c. None)\<rparr>"

text \<open>
  The builtins \<^verbatim>\<open>int\<close> and \<^verbatim>\<open>float\<close> for the runs below. Only three strings reach
  them there: \<^verbatim>\<open>256\<close>, \<^verbatim>\<open>0.2\<close> and \<^verbatim>\<open>abc\<close>, on which \<^verbatim>\<open>int\<close> raises the
  \<^verbatim>\<open>ValueError\<close> written here. On other strings the two functions are not meant to follow
  Python.
\<close>

definition sample_int_of_str :: "pystr \<Rightarrow> py_exception + int" where
  "sample_int_of_str s =
     (if s = ascii ''256'' then Inr 256
      else Inl (raise_exc ValueError
             (ascii ''invalid literal for int() with base 10: '' @ [0x27] @ s @ [0x27])))"

definition sample_float_of_str :: "pystr \<Rightarrow> py_exception + real" where
  "sample_float_of_str s =
     (if s = ascii ''0.2'' then Inr 0.2
      else Inl (raise_exc ValueError
             (ascii ''could not convert string to float: '' @ [0x27] @ s @ [0x27])))"

definition rt_unset :: runtime where
  "rt_unset = \<lparr>environ = Map.empty, int_of_str = sample_int_of_str,
                float_of_str = sample_float_of_str\<rparr>"

definition rt_bad_tokens :: runtime where
  "rt_bad_tokens = \<lparr>environ = Map.empty(''AI_MAX_TOKENS'' \<mapsto> ascii ''abc''),
                     int_of_str = sample_int_of_str, float_of_str = sample_float_of_str\<rparr>"

definition rt_credentials :: runtime where
  "rt_credentials = \<lparr>environ = Map.empty(''TELEGRAM_BOT_TOKEN'' \<mapsto> ascii ''123:abc'',
                                           ''OPENAI_API_KEY'' \<mapsto> ascii ''sk-test''),
                      int_of_str = sample_int_of_str, float_of_str = sample_float_of_str\<rparr>"

definition rt_set :: runtime where
  "rt_set = \<lparr>environ = Map.empty(''TELEGRAM_BOT_TOKEN'' \<mapsto> ascii ''123:abc'',
                                   ''OPENAI_API_KEY'' \<mapsto> ascii ''sk-test'',
                                   ''AI_MODEL'' \<mapsto> ascii ''gpt-4'',
                                   ''AI_MAX_TOKENS'' \<mapsto> ascii ''256'',
                                   ''AI_TEMPERATURE'' \<mapsto> ascii ''0.2''),
              int_of_str = sample_int_of_str, float_of_str = sample_float_of_str\<rparr>"

section \<open>Auxiliary facts\<close>

lemma sublist_appendR: "sublist xs zs \<Longrightarrow> sublist xs (ys @ zs)"
  by (auto simp: sublist_append)

lemma get_ai_response_cases:
  "get_ai_response cfg w user_message user_name_arg st =
     (let req = build_request cfg user_message (user_name_or_default user_name_arg);
          st' = st\<lparr>requests := requests st @ [req]\<rparr>;
          caught = (\<lambda>e. if isinstance_Exception (exc_class e)
                         then (Inr (Some fallback),
                               logger ERROR ([0x274C] @ ascii '' Eroare AI: '' @ exc_str e) st')
                         else (Inl e, st'))
      in case create w req of
           Inl e \<Rightarrow> caught e
         | Inr response \<Rightarrow>
             (case stripped_content response of
                Inl e \<Rightarrow> caught e
              | Inr s \<Rightarrow> (Inr (Some s), st')))"
  by (simp add: get_ai_response_def try_get_ai_response_def Let_def split: sum.splits)

lemma stripped_content_raises_Exception:
  "stripped_content r = Inl e \<Longrightarrow> isinstance_Exception (exc_class e)"
  by (auto simp: stripped_content_def raise_exc_def split: option.splits list.splits)

lemma get_ai_response_bot_calls:
  "bot_calls (snd (get_ai_response cfg w user_message user_name_arg st)) = bot_calls st"
  by (simp add: get_ai_response_cases Let_def logger_def split: sum.splits)

lemma get_ai_response_result:
  assumes "\<And>e. create w (build_request cfg user_message (user_name_or_default user_name_arg)) = Inl e
             \<Longrightarrow> isinstance_Exception (exc_class e)"
  shows "\<exists>txt. fst (get_ai_response cfg w user_message user_name_arg (st::state)) = Inr (Some txt)
           \<and> (txt = fallback
              \<or> (\<exists>r. create w (build_request cfg user_message (user_name_or_default user_name_arg)) = Inr r
                      \<and> stripped_content r = Inr txt))"
proof (cases "create w (build_request cfg user_message (user_name_or_default user_name_arg))")
  case (Inl e)
  with assms[OF Inl] show ?thesis
    by (simp add: get_ai_response_cases Let_def)
next
  case (Inr r)
  show ?thesis
  proof (cases "stripped_content r")
    case (Inl e)
    with Inr stripped_content_raises_Exception[OF Inl] show ?thesis
      by (simp add: get_ai_response_cases Let_def)
  next
    case r2: (Inr s)
    with Inr show ?thesis
      by (simp add: get_ai_response_cases Let_def)
  qed
qed

lemma call_bot_result:
  "call_bot w c st =
     ((case bot_api w c of None \<Rightarrow> Inr () | Some e \<Rightarrow> Inl e), st\<lparr>bot_calls := bot_calls st @ [c]\<rparr>)"
  by (simp add: call_bot_def Let_def split: option.splits)


section \<open>The completion client\<close>

text \<open>
  Claim C1. Whatever the user text and the user name, \<open>get_ai_response\<close> hands no failure
  of the completion call on to its caller. If the endpoint answers and the answer has a
  content, the function returns that text, stripped; if the call raises, or the answer is
  malformed so that reading its content raises, the function logs one error record with the
  text of the exception and returns the fixed fallback string. Network errors, API errors
  and the errors of a malformed answer are all instances of \<^verbatim>\<open>Exception\<close>, which is what
  the handler catches; the hypothesis says that the call raises nothing else.
\<close>

theorem get_ai_response_never_raises:
  assumes "\<And>e. create w (build_request cfg user_message (user_name_or_default user_name_arg))
                  = Inl e
             \<Longrightarrow> isinstance_Exception (exc_class e)"
  shows "(\<exists>r s. create w (build_request cfg user_message (user_name_or_default user_name_arg))
                  = Inr r
            \<and> stripped_content r = Inr s
            \<and> get_ai_response cfg w user_message user_name_arg st =
                (Inr (Some s),
                 st\<lparr>requests := requests st @
                      [build_request cfg user_message (user_name_or_default user_name_arg)]\<rparr>))
       \<or> (\<exists>e. (create w (build_request cfg user_message (user_name_or_default user_name_arg))
                  = Inl e
                \<or> (\<exists>r. create w (build_request cfg user_message
                                    (user_name_or_default user_name_arg)) = Inr r
                        \<and> stripped_content r = Inl e))
            \<and> get_ai_response cfg w user_message user_name_arg st =
                (Inr (Some fallback),
                 logger ERROR ([0x274C] @ ascii '' Eroare AI: '' @ exc_str e)
                   (st\<lparr>requests := requests st @
                        [build_request cfg user_message (user_name_or_default user_name_arg)]\<rparr>)))"
proof (cases "create w (build_request cfg user_message (user_name_or_default user_name_arg))")
  case (Inl e)
  with assms[OF Inl] show ?thesis
    by (simp add: get_ai_response_cases Let_def)
next
  case (Inr r)
  show ?thesis
  proof (cases "stripped_content r")
    case (Inl e)
    with Inr stripped_content_raises_Exception[OF Inl] show ?thesis
      by (simp add: get_ai_response_cases Let_def)
  next
    case ok: (Inr s)
    with Inr show ?thesis
      by (simp add: get_ai_response_cases Let_def)
  qed
qed

text \<open>The endpoint is unreachable: the fallback string comes back and the error is logged.\<close>

theorem get_ai_response_never_raises_witness:
  "get_ai_response cfg_default w_down (ascii ''Ce faci?'') (Some (ascii ''Maria'')) st_empty =
     (Inr (Some fallback),
      \<lparr>log_records = [(ERROR, [0x274C] @ ascii '' Eroare AI: Connection error.'')],
       requests = [build_request cfg_default (ascii ''Ce faci?'') (ascii ''Maria'')],
       bot_calls = []\<rparr>)"
  using get_ai_response_never_raises[of w_down cfg_default "ascii ''Ce faci?''"
          "Some (ascii ''Maria'')" st_empty]
  by (auto simp: w_down_def raise_exc_def st_empty_def logger_def user_name_or_default_def
        ascii_def)

text \<open>
  What the hypothesis of C1 leaves out: an exception outside \<^verbatim>\<open>Exception\<close>, such as the
  \<^verbatim>\<open>KeyboardInterrupt\<close> of an interrupted process, passes through the handler.
\<close>

lemma get_ai_response_propagates_BaseException:
  "create w (build_request cfg user_message (user_name_or_default user_name_arg)) = Inl e \<Longrightarrow> \<not> isinstance_Exception (exc_class e)
   \<Longrightarrow> fst (get_ai_response cfg w user_message user_name_arg st) = Inl e"
  by (simp add: get_ai_response_cases Let_def)

text \<open>
  Claim C5. For every user text and user name, \<open>get_ai_response\<close> issues exactly one
  request to the completion endpoint. Its messages are two: a system message whose content
  is the fixed template with the user name put in, and a user message whose content is the
  user text as it came. Model, token limit and temperature are the configured ones. When
  the name is omitted, it is \<^verbatim>\<open>User\<close>.
\<close>

theorem get_ai_response_request:
  "requests (snd (get_ai_response cfg w user_message user_name_arg st))
     = requests st @
       [\<lparr>model = AI_MODEL cfg,
         messages = [\<lparr>role = ascii ''system'',
                      content = system_prompt (case user_name_arg of None \<Rightarrow> ascii ''User'' | Some n \<Rightarrow> n)\<rparr>,
                     \<lparr>role = ascii ''user'', content = user_message\<rparr>],
         max_tokens = AI_MAX_TOKENS cfg,
         temperature = AI_TEMPERATURE cfg\<rparr>]
   \<and> sublist (case user_name_arg of None \<Rightarrow> ascii ''User'' | Some n \<Rightarrow> n)
        (system_prompt (case user_name_arg of None \<Rightarrow> ascii ''User'' | Some n \<Rightarrow> n))"
proof -
  have "sublist n (system_prompt n)" for n
    unfolding system_prompt_def by (intro sublist_appendR sublist_append_rightI)
  then show ?thesis
    by (simp add: get_ai_response_cases Let_def logger_def build_request_def
          user_name_or_default_def split: sum.splits)
qed

text \<open>
  Claim C9. The annotation of \<open>get_ai_response\<close> is \<^verbatim>\<open>Optional[str]\<close>, but the function
  never returns \<^verbatim>\<open>None\<close>. When the answer has a content, the result is that content with
  the whitespace at both ends removed. Every exception raised inside the \<^verbatim>\<open>try\<close> block
  and caught by \<^verbatim>\<open>except Exception\<close> ends in the fallback string: a raising call, a
  missing or empty list of choices, a missing message and a content that is \<^verbatim>\<open>None\<close>,
  whose \<^verbatim>\<open>.strip()\<close> raises. So the function returns a string whenever the call raises
  nothing but instances of \<^verbatim>\<open>Exception\<close>.
\<close>

theorem get_ai_response_returns_str:
  "fst (get_ai_response cfg w user_message user_name_arg st) \<noteq> Inr None
   \<and> (\<forall>r c cs m s. create w (build_request cfg user_message (user_name_or_default user_name_arg)) = Inr r \<and> choices r = Some (c # cs)
          \<and> choice_message c = Some m \<and> message_content m = Some s
        \<longrightarrow> fst (get_ai_response cfg w user_message user_name_arg st) = Inr (Some (strip s)))
   \<and> (\<forall>r c cs m. create w (build_request cfg user_message (user_name_or_default user_name_arg)) = Inr r \<and> choices r = Some (c # cs)
          \<and> choice_message c = Some m \<and> message_content m = None
        \<longrightarrow> fst (get_ai_response cfg w user_message user_name_arg st) = Inr (Some fallback))
   \<and> (\<forall>r c cs. create w (build_request cfg user_message (user_name_or_default user_name_arg)) = Inr r \<and> choices r = Some (c # cs) \<and> choice_message c = None
        \<longrightarrow> fst (get_ai_response cfg w user_message user_name_arg st) = Inr (Some fallback))
   \<and> (\<forall>r. create w (build_request cfg user_message (user_name_or_default user_name_arg)) = Inr r \<and> (choices r = None \<or> choices r = Some [])
        \<longrightarrow> fst (get_ai_response cfg w user_message user_name_arg st) = Inr (Some fallback))
   \<and> (\<forall>e. create w (build_request cfg user_message (user_name_or_default user_name_arg)) = Inl e \<and> isinstance_Exception (exc_class e)
        \<longrightarrow> fst (get_ai_response cfg w user_message user_name_arg st) = Inr (Some fallback))
   \<and> ((\<forall>e. create w (build_request cfg user_message (user_name_or_default user_name_arg)) = Inl e \<longrightarrow> isinstance_Exception (exc_class e))
        \<longrightarrow> (\<exists>s. fst (get_ai_response cfg w user_message user_name_arg st) = Inr (Some s)))"
proof -
  have never_None: "fst (get_ai_response cfg w user_message user_name_arg st) \<noteq> Inr None"
    by (simp add: get_ai_response_cases Let_def split: sum.splits)
  have content: "fst (get_ai_response cfg w user_message user_name_arg st) = Inr (Some (strip s))"
    if "create w (build_request cfg user_message (user_name_or_default user_name_arg)) = Inr r" "choices r = Some (c # cs)" "choice_message c = Some m"
       "message_content m = Some s" for r c cs m s
    using that by (simp add: get_ai_response_cases Let_def stripped_content_def)
  have no_content: "fst (get_ai_response cfg w user_message user_name_arg st) = Inr (Some fallback)"
    if "create w (build_request cfg user_message (user_name_or_default user_name_arg)) = Inr r" "choices r = Some (c # cs)" "choice_message c = Some m"
       "message_content m = None" for r c cs m
    using that by (simp add: get_ai_response_cases Let_def stripped_content_def raise_exc_def)
  have no_message: "fst (get_ai_response cfg w user_message user_name_arg st) = Inr (Some fallback)"
    if "create w (build_request cfg user_message (user_name_or_default user_name_arg)) = Inr r" "choices r = Some (c # cs)" "choice_message c = None" for r c cs
    using that by (simp add: get_ai_response_cases Let_def stripped_content_def raise_exc_def)
  have no_choice: "fst (get_ai_response cfg w user_message user_name_arg st) = Inr (Some fallback)"
    if "create w (build_request cfg user_message (user_name_or_default user_name_arg)) = Inr r" "choices r = None \<or> choices r = Some []" for r
    using that by (auto simp: get_ai_response_cases Let_def stripped_content_def raise_exc_def)
  have raised: "fst (get_ai_response cfg w user_message user_name_arg st) = Inr (Some fallback)"
    if "create w (build_request cfg user_message (user_name_or_default user_name_arg)) = Inl e" "isinstance_Exception (exc_class e)" for e
    using that by (simp add: get_ai_response_cases Let_def)
  have total: "\<exists>s. fst (get_ai_response cfg w user_message user_name_arg st) = Inr (Some s)"
    if "\<forall>e. create w (build_request cfg user_message (user_name_or_default user_name_arg)) = Inl e \<longrightarrow> isinstance_Exception (exc_class e)"
    using get_ai_response_result[of w cfg user_message user_name_arg st] that by blast
  show ?thesis
    using never_None content no_content no_message no_choice raised total by blast
qed

text \<open>An answer whose content is \<^verbatim>\<open>None\<close>: the result is the fallback string.\<close>

theorem get_ai_response_returns_str_witness:
  "fst (get_ai_response cfg_default w_no_content (ascii ''Ce faci?'') None st_empty)
     = Inr (Some fallback)"
  using get_ai_response_returns_str[of cfg_default w_no_content "ascii ''Ce faci?''" None st_empty]
  by (simp add: w_no_content_def answer_def)

section \<open>The message relay\<close>

text \<open>
  Claim C2, as the code has it. Take a text message whose update carries the message and
  its sender, and an endpoint that raises nothing but instances of \<^verbatim>\<open>Exception\<close>. Then
  \<open>handle_message\<close> first issues the \<^verbatim>\<open>typing\<close> signal to the chat of the message. If the Bot
  API raises on it, the handler raises that error and issues nothing else. Otherwise it
  issues exactly one reply, to the same chat, whose text is the fallback string or the
  content of the endpoint's answer with the whitespace at both ends removed, which is the
  empty string when the content is blank; and the handler raises exactly what the Bot API
  raises on that reply, so no failure of the completion call leaves the handler.
\<close>

theorem handle_message_reply:
  assumes "upd_message upd = Some m" and "effective_user upd = Some usr"
    and "\<And>e. create w (build_request cfg (message_text m) (first_name usr)) = Inl e
           \<Longrightarrow> isinstance_Exception (exc_class e)"
  shows "case bot_api w (SendChatAction (chat_id m) (ascii ''typing'')) of
           Some e \<Rightarrow>
             fst (handle_message cfg w upd st) = Inl e
             \<and> bot_calls (snd (handle_message cfg w upd st))
                 = bot_calls st @ [SendChatAction (chat_id m) (ascii ''typing'')]
         | None \<Rightarrow>
             (\<exists>txt. (txt = fallback
                      \<or> (\<exists>r. create w (build_request cfg (message_text m) (first_name usr)) = Inr r
                              \<and> stripped_content r = Inr txt))
                  \<and> bot_calls (snd (handle_message cfg w upd st))
                      = bot_calls st @ [SendChatAction (chat_id m) (ascii ''typing''),
                                        SendMessage (chat_id m) (Some txt) None]
                  \<and> fst (handle_message cfg w upd st)
                      = (case bot_api w (SendMessage (chat_id m) (Some txt) None) of
                           None \<Rightarrow> Inr () | Some e \<Rightarrow> Inl e))"
proof (cases "bot_api w (SendChatAction (chat_id m) (ascii ''typing''))")
  case (Some e)
  with assms(1,2) show ?thesis
    by (simp add: handle_message_def send_action_def call_bot_result logger_def Let_def)
next
  case None
  define st2 where "st2 = (logger INFO ([0x1F4E9] @ ascii '' Mesaj de la '' @ first_name usr
                             @ ascii '': '' @ message_text m) st)
                           \<lparr>bot_calls := bot_calls st @ [SendChatAction (chat_id m) (ascii ''typing'')]\<rparr>"
  have calls2: "bot_calls st2 = bot_calls st @ [SendChatAction (chat_id m) (ascii ''typing'')]"
    by (simp add: st2_def)
  from assms(3) have "\<And>e. create w (build_request cfg (message_text m)
        (user_name_or_default (Some (first_name usr)))) = Inl e \<Longrightarrow> isinstance_Exception (exc_class e)"
    by (simp add: user_name_or_default_def)
  from get_ai_response_result[of w cfg "message_text m" "Some (first_name usr)" st2, OF this]
  obtain t where t: "fst (get_ai_response cfg w (message_text m) (Some (first_name usr)) st2) = Inr (Some t)"
    and src: "t = fallback \<or> (\<exists>r. create w (build_request cfg (message_text m) (first_name usr)) = Inr r
                      \<and> stripped_content r = Inr t)"
    by (auto simp: user_name_or_default_def)
  obtain st3 where st3: "get_ai_response cfg w (message_text m) (Some (first_name usr)) st2 = (Inr (Some t), st3)"
    using t by (cases "get_ai_response cfg w (message_text m) (Some (first_name usr)) st2") auto
  have calls3: "bot_calls st3 = bot_calls st2"
    using get_ai_response_bot_calls[of cfg w "message_text m" "Some (first_name usr)" st2] st3 by simp
  have run: "handle_message cfg w upd st = reply_text w m (Some t) None st3"
    using assms(1,2) None st3
    by (simp add: handle_message_def send_action_def call_bot_result logger_def Let_def st2_def)
  show ?thesis
    using None src by (auto simp: run reply_text_def call_bot_result calls3 calls2)
qed

text \<open>
  The scenario of the specification: Maria writes \<^verbatim>\<open>Ce faci?\<close>, the endpoint answers with
  a line of thanks that ends in a newline, and the relay sends that line, stripped, after the
  typing signal.
\<close>

theorem handle_message_reply_witness:
  "handle_message cfg_default w_ok upd_maria st_empty =
     (Inr (), \<lparr>log_records = [(INFO, [0x1F4E9] @ ascii '' Mesaj de la Maria: Ce faci?'')],
               requests = [build_request cfg_default (ascii ''Ce faci?'') (ascii ''Maria'')],
               bot_calls = [SendChatAction 42 (ascii ''typing''),
                            SendMessage 42 (Some (ascii ''Bine, mul'' @ [0x21B] @ ascii ''umesc!'')) None]\<rparr>)"
  using handle_message_reply[of upd_maria msg_ce_faci "\<lparr>first_name = ascii ''Maria''\<rparr>" w_ok cfg_default st_empty]
  by (simp add: handle_message_def upd_maria_def msg_ce_faci_def w_ok_def st_empty_def answer_def
       get_ai_response_cases stripped_content_def send_action_def reply_text_def call_bot_result
       logger_def Let_def strip_def isspace_def ascii_def user_name_or_default_def)

text \<open>
  The claim as the specification words it fails where the endpoint answers with blanks
  only: the reply the handler issues is the empty string, and the Bot API, which accepts no
  empty message text, raises in \<^verbatim>\<open>reply_text\<close>, an error the handler does not catch.
\<close>

theorem handle_message_empty_reply_counterexample:
  "fst (handle_message cfg_default w_blank upd_maria st_empty)
     = Inl (raise_exc TelegramError (ascii ''Message text is empty''))
   \<and> bot_calls (snd (handle_message cfg_default w_blank upd_maria st_empty))
     = [SendChatAction 42 (ascii ''typing''), SendMessage 42 (Some []) None]"
  by (simp add: handle_message_def upd_maria_def msg_ce_faci_def w_blank_def st_empty_def answer_def
       get_ai_response_cases stripped_content_def send_action_def reply_text_def call_bot_result
       logger_def Let_def strip_def isspace_def ascii_def user_name_or_default_def)

section \<open>The error sink\<close>

text \<open>
  Claim C3, as the code has it. For every error handed to \<open>error_handler\<close>, the handler
  logs one error record with the text of the error. It issues the fixed apology to the chat
  of the effective message if and only if the update and its effective message are both
  present; without them it only logs, issues nothing and returns. It raises exactly when
  the Bot API raises on the apology it issues.
\<close>

theorem error_handler_behaviour:
  "log_records (snd (error_handler w upd_arg err st))
     = log_records st @ [(ERROR, [0x274C] @ ascii '' Eroare: '' @ exc_str err)]
   \<and> (case Option.bind upd_arg effective_message of
        None \<Rightarrow>
          fst (error_handler w upd_arg err st) = Inr ()
          \<and> bot_calls (snd (error_handler w upd_arg err st)) = bot_calls st
      | Some m \<Rightarrow>
          bot_calls (snd (error_handler w upd_arg err st))
            = bot_calls st @ [SendMessage (chat_id m) (Some apology) None]
          \<and> fst (error_handler w upd_arg err st)
              = (case bot_api w (SendMessage (chat_id m) (Some apology) None) of
                   None \<Rightarrow> Inr () | Some e \<Rightarrow> Inl e))"
  by (simp add: error_handler_def reply_text_def call_bot_result logger_def Let_def
           split: option.splits)

text \<open>
  The claim as the specification words it fails where the Bot API cannot be reached: the
  handler that failed on a timeout is followed by an error handler whose apology times out
  as well, and that error leaves \<open>error_handler\<close>.
\<close>

theorem error_handler_raises_counterexample:
  "fst (error_handler w_offline (Some upd_maria) (raise_exc TelegramError (ascii ''Timed out''))
          st_empty)
     = Inl (raise_exc TelegramError (ascii ''Timed out''))"
  by (simp add: error_handler_def reply_text_def call_bot_result logger_def Let_def
        w_offline_def upd_maria_def)

text \<open>An error outside any update, while the Bot API is down: one log record, nothing sent.\<close>

theorem error_handler_behaviour_witness:
  "error_handler w_offline None (raise_exc TelegramError (ascii ''Timed out'')) st_empty
     = (Inr (), \<lparr>log_records = [(ERROR, [0x274C] @ ascii '' Eroare: Timed out'')],
                  requests = [], bot_calls = []\<rparr>)"
  using error_handler_behaviour[of w_offline None "raise_exc TelegramError (ascii ''Timed out'')"
          st_empty]
  by (simp add: error_handler_def st_empty_def logger_def raise_exc_def ascii_def)

section \<open>The command responders\<close>

text \<open>
  Claim C6. Run any of the three responders twice, in any two worlds and states, on any two
  updates that carry a message and a sender with the same first name: the two replies have
  the same text. No run issues a request to the completion endpoint.
\<close>

theorem command_responders_pure:
  assumes "upd_message u1 = Some m1" and "upd_message u2 = Some m2"
    and "effective_user u1 = Some usr1" and "effective_user u2 = Some usr2"
    and "first_name usr1 = first_name usr2"
  shows "(\<exists>t. bot_calls (snd (start_command w1 u1 st1))
                 = bot_calls st1 @ [SendMessage (chat_id m1) (Some t) None]
             \<and> bot_calls (snd (start_command w2 u2 st2))
                 = bot_calls st2 @ [SendMessage (chat_id m2) (Some t) None])
       \<and> (\<exists>t. bot_calls (snd (help_command w1 u1 st1))
                 = bot_calls st1 @ [SendMessage (chat_id m1) (Some t) (Some (ascii ''Markdown''))]
             \<and> bot_calls (snd (help_command w2 u2 st2))
                 = bot_calls st2 @ [SendMessage (chat_id m2) (Some t) (Some (ascii ''Markdown''))])
       \<and> (\<exists>t. bot_calls (snd (about_command w1 u1 st1))
                 = bot_calls st1 @ [SendMessage (chat_id m1) (Some t) None]
             \<and> bot_calls (snd (about_command w2 u2 st2))
                 = bot_calls st2 @ [SendMessage (chat_id m2) (Some t) None])
       \<and> requests (snd (start_command w1 u1 st1)) = requests st1
       \<and> requests (snd (help_command w1 u1 st1)) = requests st1
       \<and> requests (snd (about_command w1 u1 st1)) = requests st1"
  using assms
  by (simp add: start_command_def help_command_def about_command_def reply_text_def
        call_bot_result)

text \<open>Maria sends each command in chat 42, once while the Bot API works and once while not.\<close>

theorem command_responders_pure_witness:
  "bot_calls (snd (start_command w_ok upd_maria st_empty))
     = [SendMessage 42 (Some (welcome_message (ascii ''Maria''))) None]
   \<and> bot_calls (snd (start_command w_offline upd_maria st_empty))
     = [SendMessage 42 (Some (welcome_message (ascii ''Maria''))) None]
   \<and> requests (snd (start_command w_ok upd_maria st_empty)) = []"
  using command_responders_pure[of upd_maria msg_ce_faci upd_maria msg_ce_faci
          "\<lparr>first_name = ascii ''Maria''\<rparr>" "\<lparr>first_name = ascii ''Maria''\<rparr>"
          w_ok st_empty w_offline st_empty]
  by (simp add: start_command_def reply_text_def call_bot_result upd_maria_def msg_ce_faci_def
        st_empty_def)

text \<open>
  Claim C7. For every first name of the sender, the reply of \<open>start_command\<close> contains
  that name, and it contains \<^verbatim>\<open>/start\<close>, \<^verbatim>\<open>/help\<close> and \<^verbatim>\<open>/about\<close>.
\<close>

theorem start_command_reply_contents:
  assumes "upd_message upd = Some m" and "effective_user upd = Some usr"
  shows "\<exists>t. bot_calls (snd (start_command w upd st))
                = bot_calls st @ [SendMessage (chat_id m) (Some t) None]
            \<and> sublist (first_name usr) t
            \<and> sublist (ascii ''/start'') t
            \<and> sublist (ascii ''/help'') t
            \<and> sublist (ascii ''/about'') t"
proof -
  have has_name: "sublist n (welcome_message n)" for n
    unfolding welcome_message_def by (intro sublist_appendR sublist_append_rightI)
  have has_start: "sublist (ascii ''/start'') (welcome_message n)" for n
    by (simp add: welcome_message_def ascii_def sublist_Cons_right sublist_appendR)
  have has_help: "sublist (ascii ''/help'') (welcome_message n)" for n
    by (simp add: welcome_message_def ascii_def sublist_Cons_right sublist_appendR)
  have has_about: "sublist (ascii ''/about'') (welcome_message n)" for n
    by (simp add: welcome_message_def ascii_def sublist_Cons_right sublist_appendR)
  have "bot_calls (snd (start_command w upd st))
          = bot_calls st @ [SendMessage (chat_id m) (Some (welcome_message (first_name usr))) None]"
    using assms by (simp add: start_command_def reply_text_def call_bot_result)
  with has_name has_start has_help has_about show ?thesis
    by blast
qed

text \<open>The scenario of the specification: Maria sends \<^verbatim>\<open>/start\<close>.\<close>

theorem start_command_reply_contents_witness:
  "\<exists>t. bot_calls (snd (start_command w_ok upd_maria st_empty)) = [SendMessage 42 (Some t) None]
       \<and> sublist (ascii ''Maria'') t
       \<and> sublist (ascii ''/start'') t
       \<and> sublist (ascii ''/help'') t
       \<and> sublist (ascii ''/about'') t"
  using start_command_reply_contents[of upd_maria msg_ce_faci "\<lparr>first_name = ascii ''Maria''\<rparr>"
          w_ok st_empty]
  by (simp add: upd_maria_def msg_ce_faci_def st_empty_def)

text \<open>
  Claim C10. The texts of the replies of \<open>help_command\<close> and \<open>about_command\<close> are
  constants: any two runs, whatever the worlds, the states, the senders and the messages,
  reply with the same text.
\<close>

theorem help_about_constant:
  assumes "upd_message u1 = Some m1" and "upd_message u2 = Some m2"
  shows "bot_calls (snd (help_command w1 u1 st1))
           = bot_calls st1 @ [SendMessage (chat_id m1) (Some help_text) (Some (ascii ''Markdown''))]
       \<and> bot_calls (snd (help_command w2 u2 st2))
           = bot_calls st2 @ [SendMessage (chat_id m2) (Some help_text) (Some (ascii ''Markdown''))]
       \<and> bot_calls (snd (about_command w1 u1 st1))
           = bot_calls st1 @ [SendMessage (chat_id m1) (Some about_text) None]
       \<and> bot_calls (snd (about_command w2 u2 st2))
           = bot_calls st2 @ [SendMessage (chat_id m2) (Some about_text) None]"
  using assms
  by (simp add: help_command_def about_command_def reply_text_def call_bot_result)

text \<open>Maria in chat 42 and an update without sender in chat 7 get the same two texts.\<close>

theorem help_about_constant_witness:
  "bot_calls (snd (help_command w_ok upd_maria st_empty))
     = [SendMessage 42 (Some help_text) (Some (ascii ''Markdown''))]
   \<and> bot_calls (snd (help_command w_offline upd_anonymous st_empty))
     = [SendMessage 7 (Some help_text) (Some (ascii ''Markdown''))]
   \<and> bot_calls (snd (about_command w_ok upd_maria st_empty))
     = [SendMessage 42 (Some about_text) None]
   \<and> bot_calls (snd (about_command w_offline upd_anonymous st_empty))
     = [SendMessage 7 (Some about_text) None]"
  using help_about_constant[of upd_maria msg_ce_faci upd_anonymous
          "\<lparr>chat_id = 7, message_text = ascii ''/help''\<rparr>" w_ok st_empty w_offline st_empty]
  by (simp add: upd_maria_def msg_ce_faci_def upd_anonymous_def st_empty_def)

section \<open>Start of the process\<close>

text \<open>
  Claim C4, as the code has it. If \<^verbatim>\<open>TELEGRAM_BOT_TOKEN\<close> or \<^verbatim>\<open>OPENAI_API_KEY\<close> is unset
  or empty, the module raises, so the process never enters the receive loop. The two
  variables are checked after \<^verbatim>\<open>AI_MAX_TOKENS\<close> and \<^verbatim>\<open>AI_TEMPERATURE\<close> have been
  converted: when both conversions succeed, the module logs which variable is missing (the
  token first) before it raises the \<^verbatim>\<open>ValueError\<close> that names it, and when the token and
  the key are both non-empty, it passes the check and logs nothing.
\<close>

theorem startup_required_variables:
  "((environ rt ''TELEGRAM_BOT_TOKEN'' = None \<or> environ rt ''TELEGRAM_BOT_TOKEN'' = Some []
      \<or> environ rt ''OPENAI_API_KEY'' = None \<or> environ rt ''OPENAI_API_KEY'' = Some [])
     \<longrightarrow> (\<exists>e. fst (startup rt st) = Inl e))
   \<and> (load_AI_MAX_TOKENS rt = Inr n \<and> load_AI_TEMPERATURE rt = Inr t \<longrightarrow>
        (if environ rt ''TELEGRAM_BOT_TOKEN'' = None \<or> environ rt ''TELEGRAM_BOT_TOKEN'' = Some []
         then startup rt st =
                (Inl (raise_exc ValueError (ascii ''TELEGRAM_BOT_TOKEN lips'' @ [0x103])),
                 st\<lparr>log_records := log_records st @
                      [(ERROR, [0x274C] @ ascii '' TELEGRAM_BOT_TOKEN nu este setat ''
                                @ [0xEE] @ ascii ''n .env'')]\<rparr>)
         else if environ rt ''OPENAI_API_KEY'' = None \<or> environ rt ''OPENAI_API_KEY'' = Some []
         then startup rt st =
                (Inl (raise_exc ValueError (ascii ''OPENAI_API_KEY lips'' @ [0x103])),
                 st\<lparr>log_records := log_records st @
                      [(ERROR, [0x274C] @ ascii '' OPENAI_API_KEY nu este setat ''
                                @ [0xEE] @ ascii ''n .env'')]\<rparr>)
         else startup rt st =
                (Inr \<lparr>TELEGRAM_TOKEN = environ rt ''TELEGRAM_BOT_TOKEN'',
                       OPENAI_API_KEY = environ rt ''OPENAI_API_KEY'',
                       AI_MODEL = load_AI_MODEL rt, AI_MAX_TOKENS = n, AI_TEMPERATURE = t\<rparr>, st)))"
proof -
  have refuses: "\<exists>e. fst (startup rt st) = Inl e"
    if "environ rt ''TELEGRAM_BOT_TOKEN'' = None \<or> environ rt ''TELEGRAM_BOT_TOKEN'' = Some []
        \<or> environ rt ''OPENAI_API_KEY'' = None \<or> environ rt ''OPENAI_API_KEY'' = Some []"
    using that
    by (auto simp: startup_def Let_def getenv_def py_not_def split: sum.splits option.splits)
  have checks: "(if environ rt ''TELEGRAM_BOT_TOKEN'' = None \<or> environ rt ''TELEGRAM_BOT_TOKEN'' = Some []
         then startup rt st =
                (Inl (raise_exc ValueError (ascii ''TELEGRAM_BOT_TOKEN lips'' @ [0x103])),
                 st\<lparr>log_records := log_records st @
                      [(ERROR, [0x274C] @ ascii '' TELEGRAM_BOT_TOKEN nu este setat ''
                                @ [0xEE] @ ascii ''n .env'')]\<rparr>)
         else if environ rt ''OPENAI_API_KEY'' = None \<or> environ rt ''OPENAI_API_KEY'' = Some []
         then startup rt st =
                (Inl (raise_exc ValueError (ascii ''OPENAI_API_KEY lips'' @ [0x103])),
                 st\<lparr>log_records := log_records st @
                      [(ERROR, [0x274C] @ ascii '' OPENAI_API_KEY nu este setat ''
                                @ [0xEE] @ ascii ''n .env'')]\<rparr>)
         else startup rt st =
                (Inr \<lparr>TELEGRAM_TOKEN = environ rt ''TELEGRAM_BOT_TOKEN'',
                       OPENAI_API_KEY = environ rt ''OPENAI_API_KEY'',
                       AI_MODEL = load_AI_MODEL rt, AI_MAX_TOKENS = n, AI_TEMPERATURE = t\<rparr>, st))"
    if "load_AI_MAX_TOKENS rt = Inr n" "load_AI_TEMPERATURE rt = Inr t"
    using that
    by (auto simp: startup_def Let_def getenv_def py_not_def logger_def split: option.splits)
  from refuses checks show ?thesis
    by blast
qed

text \<open>Nothing is set: the module logs that the token is missing and raises.\<close>

theorem startup_required_variables_witness:
  "startup rt_unset st_empty =
     (Inl (raise_exc ValueError (ascii ''TELEGRAM_BOT_TOKEN lips'' @ [0x103])),
      \<lparr>log_records = [(ERROR, [0x274C] @ ascii '' TELEGRAM_BOT_TOKEN nu este setat ''
                                @ [0xEE] @ ascii ''n .env'')],
       requests = [], bot_calls = []\<rparr>)"
  using startup_required_variables[of rt_unset st_empty 500 "0.7"]
  by (simp add: rt_unset_def st_empty_def load_AI_MAX_TOKENS_def load_AI_TEMPERATURE_def
        getenv_default_def py_int_def py_float_def)

text \<open>
  The claim as the specification words it fails where \<^verbatim>\<open>AI_MAX_TOKENS\<close> is set to
  \<^verbatim>\<open>abc\<close> and the token is unset: \<^verbatim>\<open>int\<close> raises on line 24, before the check of line 28,
  and the module ends without a log record that names the missing variable.
\<close>

theorem startup_unlogged_counterexample:
  "environ rt_bad_tokens ''TELEGRAM_BOT_TOKEN'' = None
   \<and> startup rt_bad_tokens st_empty =
       (Inl (raise_exc ValueError
          (ascii ''invalid literal for int() with base 10: '' @ [0x27] @ ascii ''abc'' @ [0x27])),
        st_empty)
   \<and> log_records st_empty = []"
  by (simp add: startup_def rt_bad_tokens_def st_empty_def load_AI_MAX_TOKENS_def
        getenv_default_def getenv_def py_int_def sample_int_of_str_def ascii_def Let_def)

text \<open>
  Claim C8. Unset, \<^verbatim>\<open>AI_MODEL\<close> is \<^verbatim>\<open>gpt-3.5-turbo\<close>, \<^verbatim>\<open>AI_MAX_TOKENS\<close> is 500 and
  \<^verbatim>\<open>AI_TEMPERATURE\<close> is 0.7. Set, the model is the string supplied, the token limit is
  \<^verbatim>\<open>int\<close> of the string supplied and the temperature \<^verbatim>\<open>float\<close> of it. These are the values
  of the configuration a successful start runs with.
\<close>

theorem configuration_defaults:
  "(environ rt ''AI_MODEL'' = None \<longrightarrow> load_AI_MODEL rt = ascii ''gpt-3.5-turbo'')
   \<and> (\<forall>s. environ rt ''AI_MODEL'' = Some s \<longrightarrow> load_AI_MODEL rt = s)
   \<and> (environ rt ''AI_MAX_TOKENS'' = None \<longrightarrow> load_AI_MAX_TOKENS rt = Inr 500)
   \<and> (\<forall>s. environ rt ''AI_MAX_TOKENS'' = Some s \<longrightarrow> load_AI_MAX_TOKENS rt = int_of_str rt s)
   \<and> (environ rt ''AI_TEMPERATURE'' = None \<longrightarrow> load_AI_TEMPERATURE rt = Inr 0.7)
   \<and> (\<forall>s. environ rt ''AI_TEMPERATURE'' = Some s \<longrightarrow> load_AI_TEMPERATURE rt = float_of_str rt s)
   \<and> (\<forall>cfg st st'. startup rt st = (Inr cfg, st') \<longrightarrow>
         AI_MODEL cfg = load_AI_MODEL rt
         \<and> load_AI_MAX_TOKENS rt = Inr (AI_MAX_TOKENS cfg)
         \<and> load_AI_TEMPERATURE rt = Inr (AI_TEMPERATURE cfg))"
proof -
  have loads: "(environ rt ''AI_MODEL'' = None \<longrightarrow> load_AI_MODEL rt = ascii ''gpt-3.5-turbo'')
     \<and> (\<forall>s. environ rt ''AI_MODEL'' = Some s \<longrightarrow> load_AI_MODEL rt = s)
     \<and> (environ rt ''AI_MAX_TOKENS'' = None \<longrightarrow> load_AI_MAX_TOKENS rt = Inr 500)
     \<and> (\<forall>s. environ rt ''AI_MAX_TOKENS'' = Some s \<longrightarrow> load_AI_MAX_TOKENS rt = int_of_str rt s)
     \<and> (environ rt ''AI_TEMPERATURE'' = None \<longrightarrow> load_AI_TEMPERATURE rt = Inr 0.7)
     \<and> (\<forall>s. environ rt ''AI_TEMPERATURE'' = Some s \<longrightarrow> load_AI_TEMPERATURE rt = float_of_str rt s)"
    by (simp add: load_AI_MODEL_def load_AI_MAX_TOKENS_def load_AI_TEMPERATURE_def
          getenv_default_def py_int_def py_float_def)
  have started: "AI_MODEL cfg = load_AI_MODEL rt
         \<and> load_AI_MAX_TOKENS rt = Inr (AI_MAX_TOKENS cfg)
         \<and> load_AI_TEMPERATURE rt = Inr (AI_TEMPERATURE cfg)"
    if "startup rt st = (Inr cfg, st')" for cfg st st'
  proof (cases "load_AI_MAX_TOKENS rt")
    case (Inl e)
    with that show ?thesis
      by (simp add: startup_def Let_def)
  next
    case n: (Inr n)
    show ?thesis
    proof (cases "load_AI_TEMPERATURE rt")
      case (Inl e)
      with that n show ?thesis
        by (simp add: startup_def Let_def)
    next
      case t: (Inr t)
      with that n show ?thesis
        by (auto simp: startup_def Let_def split: if_splits)
    qed
  qed
  from loads started show ?thesis
    by blast
qed

text \<open>
  Two starts with the token and the key set: one with the three settings unset, one with
  \<^verbatim>\<open>gpt-4\<close>, \<^verbatim>\<open>256\<close> and \<^verbatim>\<open>0.2\<close>.
\<close>

theorem configuration_defaults_witness:
  "startup rt_credentials st_empty =
     (Inr \<lparr>TELEGRAM_TOKEN = Some (ascii ''123:abc''), OPENAI_API_KEY = Some (ascii ''sk-test''),
            AI_MODEL = ascii ''gpt-3.5-turbo'', AI_MAX_TOKENS = 500, AI_TEMPERATURE = 0.7\<rparr>,
      st_empty)
   \<and> startup rt_set st_empty =
     (Inr \<lparr>TELEGRAM_TOKEN = Some (ascii ''123:abc''), OPENAI_API_KEY = Some (ascii ''sk-test''),
            AI_MODEL = ascii ''gpt-4'', AI_MAX_TOKENS = 256, AI_TEMPERATURE = 0.2\<rparr>,
      st_empty)"
  using configuration_defaults[of rt_credentials] configuration_defaults[of rt_set]
  by (simp add: startup_def rt_credentials_def rt_set_def getenv_def py_not_def Let_def
        sample_int_of_str_def sample_float_of_str_def ascii_def)

end
